theory Spec2Isabelle
  imports Main "HOL-Library.Word"
begin

section \<open>The vault script of the dashboard (internal/server/dashboard.go)\<close>

text \<open>
  The vault is the browser script embedded in \<^verbatim>\<open>dashboardHTML\<close>. Its global variables
  and the two IndexedDB object stores form one record, \<open>world\<close>, which every operation
  takes and returns. What the script obtains from the browser and from ethers.js
  (WebCrypto, TextEncoder and TextDecoder, the random source, address derivation) is not
  code of the repository: it is the record \<open>platform\<close>, a parameter of every definition.

  A JavaScript string is a \<open>string\<close>, one \<open>char\<close> per UTF-16 code unit (code units below
  256), so that \<open>length\<close> is the script's \<^verbatim>\<open>.length\<close>. A \<^verbatim>\<open>Uint8Array\<close>, and the number
  array \<^verbatim>\<open>Array.from\<close> makes of it, is a list of bytes. Every handler runs to its end
  before the next one starts; rendering and the polling of endpoints are left out except
  where they throw.
\<close>

subsection \<open>Data\<close>

type_synonym byte = "8 word"
type_synonym bytes = "byte list"

text \<open>\<^verbatim>\<open>walletState\<close>: 'none' | 'locked' | 'unlocked'.\<close>

datatype wallet_state = NoWallet | Locked | Unlocked

text \<open>A JavaScript exception: its \<^verbatim>\<open>name\<close> and its \<^verbatim>\<open>message\<close>.\<close>

datatype exn = Exn (exn_name: string) (exn_message: string)

text \<open>
  What a handler reports. \<open>ValidationError m\<close>: an input guard wrote \<open>m\<close> to the modal's
  error element and returned. \<open>NotUnlocked m\<close>: the guard \<^verbatim>\<open>if (!aesKey)\<close> did so.
  \<open>DecryptionError m\<close>: the \<^verbatim>\<open>catch\<close> of \<^verbatim>\<open>unlockWithPassword\<close> wrote \<open>m\<close>.
  \<open>Failed m\<close>: another \<^verbatim>\<open>catch\<close> wrote \<open>m\<close>. \<open>Logged e\<close>: the \<^verbatim>\<open>catch\<close> of \<^verbatim>\<open>unlockWallet\<close>
  passed \<open>e\<close> to \<^verbatim>\<open>console.error\<close>; \<open>Cancelled\<close>: it swallowed a NotAllowedError.
  \<open>Uncaught e\<close>: \<open>e\<close> left the handler.
\<close>

datatype error =
    ValidationError string
  | NotUnlocked string
  | DecryptionError string
  | Failed string
  | Logged exn
  | Cancelled
  | Uncaught exn

text \<open>A WebCrypto \<^verbatim>\<open>CryptoKey\<close>; \<open>material\<close> is the secret it wraps.\<close>

record CryptoKey =
  algorithm :: string
  key_bits :: nat
  extractable :: bool
  usages :: "string list"
  material :: bytes

text \<open>The credential record of the store 'credentials'; an absent property is \<open>None\<close>.\<close>

record credential =
  cred_id :: string
  cred_method :: "string option"
  credentialId :: "bytes option"
  rpId :: "string option"
  transports :: "string list option"
  pbkdf2Salt :: "bytes option"
  cred_createdAt :: nat

text \<open>
  The object handed to \<^verbatim>\<open>saveEncryptedKey\<close>, and the record the store 'keys' returns for
  it: the same object with the property \<^verbatim>\<open>id\<close>, the key the store generated.
\<close>

record KeyData =
  label :: string
  address :: string
  encrypted :: bytes
  iv :: bytes
  createdAt :: nat

record KeyRecord = KeyData +
  rec_id :: nat

text \<open>An element of \<^verbatim>\<open>decryptedKeys\<close>: \<^verbatim>\<open>{id, label, address, key}\<close>.\<close>

record DecryptedKey =
  dk_id :: nat
  dk_label :: string
  dk_address :: string
  dk_key :: string

text \<open>
  The globals of the script and the database 'wallet-vault'. The store 'credentials' is
  only ever written under the key 'primary', and \<^verbatim>\<open>getCredential\<close> returns the first
  record or null: it is an optional record. The store 'keys' has in-line keys from a key
  generator: \<open>keys_store\<close> maps a key to the stored object and \<open>keys_generated\<close> is the last
  key the generator gave out (0 in a new database); \<^verbatim>\<open>getAll\<close> lists the records in the
  order of their keys. \<open>rng_pos\<close> counts the random bytes drawn so far and \<open>wallets_made\<close>
  the calls of \<^verbatim>\<open>ethers.Wallet.createRandom\<close>.

  An assignment \<^verbatim>\<open>decryptedKeys = []\<close> makes the variable refer to a new array; the entry
  objects of the array it referred to stay in memory as they were left. \<open>released\<close> holds
  these objects, in the order in which they were let go.
\<close>

record world =
  walletState :: wallet_state
  decryptedKeys :: "DecryptedKey list"
  activeKeyIndex :: int
  aesKey :: "CryptoKey option"
  storedKeyCount :: nat
  credMethod :: string
  expandedAccounts :: "string list"
  accountBalances :: "(string \<times> (string \<times> string) list) list"
  ethersLoaded :: bool
  credentials_store :: "credential option"
  keys_store :: "nat \<Rightarrow> KeyData option"
  keys_generated :: nat
  rng_pos :: nat
  wallets_made :: nat
  released :: "DecryptedKey list"

text \<open>
  The browser and ethers.js. \<open>hkdf hash salt info bits ikm\<close> and
  \<open>pbkdf2 hash salt iterations bits password\<close> are the two \<^verbatim>\<open>deriveKey\<close> algorithms;
  \<open>aes_gcm_decrypt\<close> is \<open>None\<close> where \<^verbatim>\<open>crypto.subtle.decrypt\<close> rejects; \<open>entropy i\<close> is
  the i-th byte of the random source; \<open>ethers_Wallet k\<close> is the address
  \<^verbatim>\<open>new ethers.Wallet(k).address\<close> or the exception the constructor throws;
  \<open>ethers_createRandom n\<close> is the private key and address of the n-th random wallet;
  \<open>ethers_script\<close> tells whether the ethers.js script loads.
\<close>

record platform =
  hkdf :: "string \<Rightarrow> bytes \<Rightarrow> bytes \<Rightarrow> nat \<Rightarrow> bytes \<Rightarrow> bytes"
  pbkdf2 :: "string \<Rightarrow> bytes \<Rightarrow> nat \<Rightarrow> nat \<Rightarrow> bytes \<Rightarrow> bytes"
  aes_gcm_encrypt :: "bytes \<Rightarrow> bytes \<Rightarrow> bytes \<Rightarrow> bytes"
  aes_gcm_decrypt :: "bytes \<Rightarrow> bytes \<Rightarrow> bytes \<Rightarrow> bytes option"
  text_encode :: "string \<Rightarrow> bytes"
  text_decode :: "bytes \<Rightarrow> string"
  entropy :: "nat \<Rightarrow> byte"
  ethers_Wallet :: "string \<Rightarrow> exn + string"
  ethers_createRandom :: "nat \<Rightarrow> string \<times> string"
  ethers_script :: bool

subsection \<open>Strings\<close>

text \<open>
  \<^verbatim>\<open>String.prototype.trim\<close> removes white space and line terminators at both ends; below
  code unit 256 these are TAB, LF, VT, FF, CR, SPACE and NBSP.
\<close>

definition is_space :: "char \<Rightarrow> bool" where
  "is_space c \<longleftrightarrow> (of_char c :: nat) \<in> {9, 10, 11, 12, 13, 32, 160}"

definition trim :: "string \<Rightarrow> string" where
  "trim s = rev (dropWhile is_space (rev (dropWhile is_space s)))"

definition is_hex :: "char \<Rightarrow> bool" where
  "is_hex c \<longleftrightarrow> c \<in> set ''0123456789abcdefABCDEF''"

text \<open>\<^verbatim>\<open>key.startsWith('0x')\<close> and \<^verbatim>\<open>/^0x[0-9a-fA-F]{64}$/.test(key)\<close>.\<close>

definition startsWith_0x :: "string \<Rightarrow> bool" where
  "startsWith_0x k \<longleftrightarrow> take 2 k = ''0x''"

definition key_format_ok :: "string \<Rightarrow> bool" where
  "key_format_ok k \<longleftrightarrow> length k = 66 \<and> take 2 k = ''0x'' \<and> list_all is_hex (drop 2 k)"

text \<open>The decimal digits of a number, as \<^verbatim>\<open>'Key ' + (storedKeyCount + 1)\<close> appends them.\<close>

definition digit_char :: "nat \<Rightarrow> char" where
  "digit_char d = ''0123456789'' ! d"

function string_of_nat :: "nat \<Rightarrow> string" where
  "string_of_nat n =
     (if n < 10 then [digit_char n] else string_of_nat (n div 10) @ [digit_char (n mod 10)])"
  by pat_completeness auto
termination
  by (relation "measure (\<lambda>n. n)") auto

declare string_of_nat.simps [simp del]

subsection \<open>Constants\<close>

definition PRF_SALT :: "platform \<Rightarrow> bytes" where
  "PRF_SALT P = text_encode P ''wallet-encryption-v1''"

definition HKDF_INFO :: "platform \<Rightarrow> bytes" where
  "HKDF_INFO P = text_encode P ''AES-GCM Wallet Encryption Key V1''"

definition PBKDF2_ITERATIONS :: nat where
  "PBKDF2_ITERATIONS = 600000"

subsection \<open>IndexedDB helpers\<close>

definition saveCredential :: "credential \<Rightarrow> world \<Rightarrow> world" where
  "saveCredential cred w = w\<lparr>credentials_store := Some cred\<rparr>"

definition getCredential :: "world \<Rightarrow> credential option" where
  "getCredential w = credentials_store w"

text \<open>
  \<^verbatim>\<open>put\<close> of an object without \<^verbatim>\<open>id\<close>: the generator gives the next key and the object is
  stored under it.
\<close>

definition saveEncryptedKey :: "KeyData \<Rightarrow> world \<Rightarrow> world" where
  "saveEncryptedKey record w =
     w\<lparr>keys_store := (keys_store w)(Suc (keys_generated w) \<mapsto> record),
       keys_generated := Suc (keys_generated w)\<rparr>"

definition with_id :: "nat \<Rightarrow> KeyData \<Rightarrow> KeyRecord" where
  "with_id k d = \<lparr>label = label d, address = address d, encrypted = encrypted d, iv = iv d,
                  createdAt = createdAt d, rec_id = k\<rparr>"

definition without_id :: "KeyRecord \<Rightarrow> KeyData" where
  "without_id r = \<lparr>label = label r, address = address r, encrypted = encrypted r, iv = iv r,
                   createdAt = createdAt r\<rparr>"

text \<open>The records with keys 1 to n, in the order of the keys.\<close>

fun records_upto :: "(nat \<Rightarrow> KeyData option) \<Rightarrow> nat \<Rightarrow> KeyRecord list" where
  "records_upto m 0 = []"
| "records_upto m (Suc n) =
     records_upto m n @ (case m (Suc n) of None \<Rightarrow> [] | Some d \<Rightarrow> [with_id (Suc n) d])"

definition getEncryptedKeys :: "world \<Rightarrow> KeyRecord list" where
  "getEncryptedKeys w = records_upto (keys_store w) (keys_generated w)"

text \<open>\<^verbatim>\<open>store.get(id)\<close>: the record with that key, if the store has one.\<close>

definition store_get :: "world \<Rightarrow> nat \<Rightarrow> KeyRecord option" where
  "store_get w k =
     (if 1 \<le> k \<and> k \<le> keys_generated w then map_option (with_id k) (keys_store w k) else None)"

text \<open>\<^verbatim>\<open>store.put(rec)\<close> of a record that has its \<^verbatim>\<open>id\<close>: stored under that key.\<close>

definition store_put :: "KeyRecord \<Rightarrow> world \<Rightarrow> world" where
  "store_put r w = w\<lparr>keys_store := (keys_store w)(rec_id r \<mapsto> without_id r)\<rparr>"

definition updateKeyLabel :: "nat \<Rightarrow> string \<Rightarrow> world \<Rightarrow> (exn + unit) \<times> world" where
  "updateKeyLabel k newLabel w =
     (case store_get w k of
        None \<Rightarrow> (Inl (Exn ''Error'' ''Key not found''), w)
      | Some r \<Rightarrow> (Inr (), store_put (r\<lparr>label := newLabel\<rparr>) w))"

text \<open>\<^verbatim>\<open>deleteEncryptedKey\<close>, which no handler calls.\<close>

definition deleteEncryptedKey :: "nat \<Rightarrow> world \<Rightarrow> world" where
  "deleteEncryptedKey k w = w\<lparr>keys_store := (keys_store w)(k := None)\<rparr>"

subsection \<open>Crypto helpers\<close>

definition getRandomValues :: "platform \<Rightarrow> nat \<Rightarrow> world \<Rightarrow> bytes \<times> world" where
  "getRandomValues P n w =
     (map (\<lambda>i. entropy P (rng_pos w + i)) [0..<n], w\<lparr>rng_pos := rng_pos w + n\<rparr>)"

definition deriveAESKeyFromPRF :: "platform \<Rightarrow> bytes \<Rightarrow> CryptoKey" where
  "deriveAESKeyFromPRF P prfOutput =
     \<lparr>algorithm = ''AES-GCM'', key_bits = 256, extractable = False,
      usages = [''encrypt'', ''decrypt''],
      material = hkdf P ''SHA-256'' (PRF_SALT P) (HKDF_INFO P) 256 prfOutput\<rparr>"

definition deriveAESKeyFromPassword :: "platform \<Rightarrow> string \<Rightarrow> bytes \<Rightarrow> CryptoKey" where
  "deriveAESKeyFromPassword P password salt =
     \<lparr>algorithm = ''AES-GCM'', key_bits = 256, extractable = False,
      usages = [''encrypt'', ''decrypt''],
      material = pbkdf2 P ''SHA-256'' salt PBKDF2_ITERATIONS 256 (text_encode P password)\<rparr>"

text \<open>The object \<^verbatim>\<open>{ encrypted, iv }\<close> that \<^verbatim>\<open>encryptPrivateKey\<close> returns.\<close>

record sealed =
  sealed_encrypted :: bytes
  sealed_iv :: bytes

definition encryptPrivateKey :: "platform \<Rightarrow> string \<Rightarrow> CryptoKey \<Rightarrow> world \<Rightarrow> sealed \<times> world" where
  "encryptPrivateKey P plaintext k w =
     (let (iv', w') = getRandomValues P 12 w;
          encoded = text_encode P plaintext;
          encrypted' = aes_gcm_encrypt P (material k) iv' encoded
      in (\<lparr>sealed_encrypted = encrypted', sealed_iv = iv'\<rparr>, w'))"

text \<open>
  \<^verbatim>\<open>crypto.subtle.decrypt\<close> throws a TypeError when the key is null and rejects with an
  OperationError when the tag does not match.
\<close>

definition decryptPrivateKey :: "platform \<Rightarrow> bytes \<Rightarrow> bytes \<Rightarrow> CryptoKey option \<Rightarrow> exn + string" where
  "decryptPrivateKey P encrypted' iv' k =
     (case k of
        None \<Rightarrow> Inl (Exn ''TypeError'' ''key is not a CryptoKey'')
      | Some k' \<Rightarrow>
          (case aes_gcm_decrypt P (material k') iv' encrypted' of
             None \<Rightarrow> Inl (Exn ''OperationError'' [])
           | Some decrypted \<Rightarrow> Inr (text_decode P decrypted)))"

subsection \<open>Rendering\<close>

text \<open>\<^verbatim>\<open>xs[i]\<close>: the element, or \<^verbatim>\<open>undefined\<close> outside the array.\<close>

definition at_index :: "'a list \<Rightarrow> int \<Rightarrow> 'a option" where
  "at_index xs i = (if 0 \<le> i \<and> i < int (length xs) then Some (xs ! nat i) else None)"

text \<open>
  \<^verbatim>\<open>renderWalletBar\<close> changes no global. While unlocked with at least one key it reads
  \<^verbatim>\<open>decryptedKeys[activeKeyIndex].address\<close>, which throws a TypeError when the element is
  undefined (the text of the message is the engine's). The result is the exception, if
  any.
\<close>

definition renderWalletBar :: "world \<Rightarrow> exn option" where
  "renderWalletBar w =
     (if walletState w = Unlocked \<and> length (decryptedKeys w) > 0 then
        (case at_index (decryptedKeys w) (activeKeyIndex w) of
           None \<Rightarrow> Some (Exn ''TypeError'' ''Cannot read properties of undefined'')
         | Some active \<Rightarrow> None)
      else None)"

definition getActiveAddress :: "world \<Rightarrow> exn + string" where
  "getActiveAddress w =
     (if walletState w \<noteq> Unlocked \<or> length (decryptedKeys w) = 0 then Inr []
      else (case at_index (decryptedKeys w) (activeKeyIndex w) of
              None \<Rightarrow> Inl (Exn ''TypeError'' ''Cannot read properties of undefined'')
            | Some active \<Rightarrow> Inr (dk_address active)))"

subsection \<open>Init\<close>

text \<open>The values the globals have when the script starts; no object of an earlier page is left.\<close>

definition page_load :: "world \<Rightarrow> world" where
  "page_load w =
     w\<lparr>walletState := NoWallet, decryptedKeys := [], activeKeyIndex := 0, aesKey := None,
       storedKeyCount := 0, credMethod := [], expandedAccounts := [], accountBalances := [],
       ethersLoaded := False, released := []\<rparr>"

definition init :: "world \<Rightarrow> world" where
  "init w =
     (case getCredential w of
        None \<Rightarrow> w
      | Some cred \<Rightarrow>
          w\<lparr>storedKeyCount := length (getEncryptedKeys w),
            credMethod := (case cred_method cred of
                             None \<Rightarrow> ''prf''
                           | Some m \<Rightarrow> if m = [] then ''prf'' else m),
            walletState := Locked\<rparr>)"

subsection \<open>Password setup\<close>

text \<open>
  \<open>pw\<close> and \<open>confirm\<close> are the values of the two password inputs, \<open>now\<close> is \<^verbatim>\<open>Date.now()\<close>.
\<close>

definition setupWithPassword ::
  "platform \<Rightarrow> string \<Rightarrow> string \<Rightarrow> nat \<Rightarrow> world \<Rightarrow> (error + unit) \<times> world" where
  "setupWithPassword P pw confirm now w =
     (if pw = [] then (Inl (ValidationError ''Please enter a password.''), w)
      else if length pw < 8 then
        (Inl (ValidationError ''Password must be at least 8 characters.''), w)
      else if pw \<noteq> confirm then (Inl (ValidationError ''Passwords do not match.''), w)
      else
        (let (salt, w1) = getRandomValues P 32 w;
             w2 = w1\<lparr>aesKey := Some (deriveAESKeyFromPassword P pw salt)\<rparr>;
             w3 = saveCredential
                    \<lparr>cred_id = ''primary'', cred_method = Some ''password'',
                     credentialId = None, rpId = None, transports = None,
                     pbkdf2Salt = Some salt, cred_createdAt = now\<rparr> w2
         in (Inr (), w3\<lparr>credMethod := ''password'', walletState := Unlocked,
                         released := released w3 @ decryptedKeys w3,
                         decryptedKeys := [], storedKeyCount := 0\<rparr>)))"

subsection \<open>Unlock\<close>

text \<open>
  The loop of \<^verbatim>\<open>decryptAllKeys\<close>: each record is decrypted with the global \<^verbatim>\<open>aesKey\<close> and
  pushed onto the global \<^verbatim>\<open>decryptedKeys\<close>; a rejected decryption leaves the loop with
  the exception.
\<close>

fun decrypt_loop :: "platform \<Rightarrow> KeyRecord list \<Rightarrow> world \<Rightarrow> (exn + unit) \<times> world" where
  "decrypt_loop P [] w = (Inr (), w)"
| "decrypt_loop P (r # rs) w =
     (case decryptPrivateKey P (encrypted r) (iv r) (aesKey w) of
        Inl e \<Rightarrow> (Inl e, w)
      | Inr plaintext \<Rightarrow>
          decrypt_loop P rs
            (w\<lparr>decryptedKeys := decryptedKeys w @
                 [\<lparr>dk_id = rec_id r, dk_label = label r, dk_address = address r,
                   dk_key = plaintext\<rparr>]\<rparr>))"

definition decryptAllKeys :: "platform \<Rightarrow> world \<Rightarrow> (exn + unit) \<times> world" where
  "decryptAllKeys P w =
     (let encryptedKeys = getEncryptedKeys w;
          w1 = w\<lparr>released := released w @ decryptedKeys w, decryptedKeys := []\<rparr>
      in (case decrypt_loop P encryptedKeys w1 of
            (Inl e, w2) \<Rightarrow> (Inl e, w2)
          | (Inr u, w2) \<Rightarrow>
              (Inr (), w2\<lparr>activeKeyIndex := 0, storedKeyCount := length (decryptedKeys w2)\<rparr>)))"

definition unlockWithPassword :: "platform \<Rightarrow> string \<Rightarrow> world \<Rightarrow> (error + unit) \<times> world" where
  "unlockWithPassword P pw w =
     (if pw = [] then (Inl (ValidationError ''Please enter your password.''), w)
      else
        (case (case getCredential w of None \<Rightarrow> None | Some stored \<Rightarrow> pbkdf2Salt stored) of
           None \<Rightarrow>
             (Inl (DecryptionError ''Wrong password or decryption failed.''), w\<lparr>aesKey := None\<rparr>)
         | Some salt \<Rightarrow>
             (let w1 = w\<lparr>aesKey := Some (deriveAESKeyFromPassword P pw salt)\<rparr>
              in (case decryptAllKeys P w1 of
                    (Inl e, w2) \<Rightarrow>
                      (Inl (DecryptionError ''Wrong password or decryption failed.''),
                       w2\<lparr>aesKey := None\<rparr>)
                  | (Inr u, w2) \<Rightarrow> (Inr (), w2\<lparr>walletState := Unlocked\<rparr>)))))"

text \<open>
  \<^verbatim>\<open>unlockWallet\<close>. \<open>assertion\<close> is what \<^verbatim>\<open>navigator.credentials.get\<close> gives: the exception
  of a rejected prompt, or the PRF result \<^verbatim>\<open>prf.results.first\<close> if there is one. The
  \<^verbatim>\<open>catch\<close> logs the exception unless it is a NotAllowedError, changes no global and calls
  \<^verbatim>\<open>renderWalletBar\<close>; an exception of that call leaves the handler.
\<close>

definition unlock_caught :: "exn \<Rightarrow> world \<Rightarrow> (error + unit) \<times> world" where
  "unlock_caught e w =
     (case renderWalletBar w of
        Some t \<Rightarrow> (Inl (Uncaught t), w)
      | None \<Rightarrow>
          (if exn_name e \<noteq> ''NotAllowedError'' then (Inl (Logged e), w) else (Inl Cancelled, w)))"

definition unlockWallet ::
  "platform \<Rightarrow> (exn + bytes option) \<Rightarrow> world \<Rightarrow> (error + unit) \<times> world" where
  "unlockWallet P assertion w =
     (if credMethod w = ''password'' then (Inr (), w)
      else
        (case getCredential w of
           None \<Rightarrow> unlock_caught (Exn ''Error'' ''No credential found.'') w
         | Some stored \<Rightarrow>
             (let (challenge, w1) = getRandomValues P 32 w
              in (case assertion of
                    Inl e \<Rightarrow> unlock_caught e w1
                  | Inr None \<Rightarrow> unlock_caught (Exn ''Error'' ''PRF evaluation failed.'') w1
                  | Inr (Some first) \<Rightarrow>
                      (let w2 = w1\<lparr>aesKey := Some (deriveAESKeyFromPRF P first)\<rparr>
                       in (case decryptAllKeys P w2 of
                             (Inl e, w3) \<Rightarrow> unlock_caught e w3
                           | (Inr u, w3) \<Rightarrow> (Inr (), w3\<lparr>walletState := Unlocked\<rparr>)))))))"

subsection \<open>Lock\<close>

text \<open>
  The loop \<^verbatim>\<open>for (let i = 0; i < decryptedKeys.length; i++) decryptedKeys[i].key = ''\<close>,
  started at \<open>i\<close>.
\<close>

function wipe_keys :: "nat \<Rightarrow> DecryptedKey list \<Rightarrow> DecryptedKey list" where
  "wipe_keys i ds =
     (if i < length ds then wipe_keys (Suc i) (ds[i := (ds ! i)\<lparr>dk_key := []\<rparr>]) else ds)"
  by pat_completeness auto
termination
  by (relation "measure (\<lambda>(i, ds). length ds - i)") auto

declare wipe_keys.simps [simp del]

text \<open>
  \<^verbatim>\<open>lockWallet\<close>: the loop empties the key of every entry object, then the variable gets a
  new array and the objects, as the loop left them, are let go.
\<close>

definition lockWallet :: "world \<Rightarrow> world" where
  "lockWallet w =
     (let w1 = w\<lparr>decryptedKeys := wipe_keys 0 (decryptedKeys w)\<rparr>
      in w1\<lparr>released := released w1 @ decryptedKeys w1, decryptedKeys := [], aesKey := None,
            activeKeyIndex := 0, walletState := Locked, expandedAccounts := [],
            accountBalances := []\<rparr>)"

subsection \<open>Import and generate\<close>

definition ensureEthers :: "platform \<Rightarrow> world \<Rightarrow> (exn + unit) \<times> world" where
  "ensureEthers P w =
     (if ethersLoaded w then (Inr (), w)
      else if ethers_script P then (Inr (), w\<lparr>ethersLoaded := True\<rparr>)
      else (Inl (Exn ''Error'' ''Failed to load ethers.js''), w))"

text \<open>
  The block that \<^verbatim>\<open>doImportKey\<close> and \<^verbatim>\<open>generateKey\<close> have in common, from
  \<^verbatim>\<open>encryptPrivateKey\<close> to the assignment of \<^verbatim>\<open>storedKeyCount\<close>. \<^verbatim>\<open>newest\<close> is the last
  element of \<^verbatim>\<open>getEncryptedKeys()\<close>; were that array empty, \<^verbatim>\<open>newest.id\<close> would throw.
\<close>

definition encrypt_and_store ::
  "platform \<Rightarrow> string \<Rightarrow> string \<Rightarrow> string \<Rightarrow> CryptoKey \<Rightarrow> nat \<Rightarrow> world \<Rightarrow> (exn + unit) \<times> world" where
  "encrypt_and_store P lbl addr k ak now w =
     (let (s, w1) = encryptPrivateKey P k ak w;
          w2 = saveEncryptedKey
                 \<lparr>label = lbl, address = addr, encrypted = sealed_encrypted s,
                  iv = sealed_iv s, createdAt = now\<rparr> w1;
          allKeys = getEncryptedKeys w2
      in (if allKeys = [] then
            (Inl (Exn ''TypeError'' ''Cannot read properties of undefined''), w2)
          else
            (let newest = last allKeys;
                 ds = decryptedKeys w2 @
                        [\<lparr>dk_id = rec_id newest, dk_label = lbl, dk_address = addr, dk_key = k\<rparr>]
             in (Inr (), w2\<lparr>decryptedKeys := ds, activeKeyIndex := int (length ds) - 1,
                             storedKeyCount := length ds\<rparr>))))"

definition caught_failed :: "exn \<Rightarrow> error" where
  "caught_failed e = Failed (''Failed: '' @ exn_message e)"

text \<open>\<open>labelInput\<close> and \<open>keyInput\<close> are the values of the two inputs of the import modal.\<close>

definition doImportKey ::
  "platform \<Rightarrow> string \<Rightarrow> string \<Rightarrow> nat \<Rightarrow> world \<Rightarrow> (error + unit) \<times> world" where
  "doImportKey P labelInput keyInput now w =
     (let lbl = (if trim labelInput \<noteq> [] then trim labelInput
                 else ''Key '' @ string_of_nat (storedKeyCount w + 1));
          k0 = trim keyInput
      in if k0 = [] then (Inl (ValidationError ''Please enter a private key.''), w)
         else
           (let k = (if \<not> startsWith_0x k0 then ''0x'' @ k0 else k0)
            in if \<not> key_format_ok k then
                 (Inl (ValidationError ''Invalid key format. Expected 64 hex characters.''), w)
               else
                 (case aesKey w of
                    None \<Rightarrow> (Inl (NotUnlocked ''Wallet is not unlocked. Please unlock first.''), w)
                  | Some ak \<Rightarrow>
                      (case ensureEthers P w of
                         (Inl e, w1) \<Rightarrow> (Inl (caught_failed e), w1)
                       | (Inr u, w1) \<Rightarrow>
                           (case ethers_Wallet P k of
                              Inl e \<Rightarrow> (Inl (caught_failed e), w1)
                            | Inr addr \<Rightarrow>
                                (case encrypt_and_store P lbl addr k ak now w1 of
                                   (Inl e, w2) \<Rightarrow> (Inl (caught_failed e), w2)
                                 | (Inr u', w2) \<Rightarrow> (Inr (), w2)))))))"


subsection \<open>Switch and rename\<close>

text \<open>\<open>index\<close> is the number \<^verbatim>\<open>parseInt(index, 10)\<close>.\<close>

definition switchKey :: "int \<Rightarrow> world \<Rightarrow> (error + unit) \<times> world" where
  "switchKey index w =
     (let w1 = w\<lparr>activeKeyIndex := index\<rparr>
      in (case renderWalletBar w1 of
            Some e \<Rightarrow> (Inl (Uncaught e), w1)
          | None \<Rightarrow> (Inr (), w1)))"

text \<open>
  \<^verbatim>\<open>const dk = decryptedKeys.find(k => k.id === keyId); if (dk) dk.label = newLabel\<close>:
  the first element with that id gets the label.
\<close>

fun relabel_first :: "nat \<Rightarrow> string \<Rightarrow> DecryptedKey list \<Rightarrow> DecryptedKey list" where
  "relabel_first k l [] = []"
| "relabel_first k l (d # ds) =
     (if dk_id d = k then d\<lparr>dk_label := l\<rparr> # ds else d # relabel_first k l ds)"

text \<open>
  \<open>keyId\<close> is the number in the hidden input of the rename modal, \<open>labelInput\<close> the value
  of its label input.
\<close>

definition doRenameKey :: "nat \<Rightarrow> string \<Rightarrow> world \<Rightarrow> (error + unit) \<times> world" where
  "doRenameKey keyId labelInput w =
     (let newLabel = trim labelInput
      in if newLabel = [] then (Inl (ValidationError ''Label cannot be empty.''), w)
         else
           (case updateKeyLabel keyId newLabel w of
              (Inl e, w1) \<Rightarrow> (Inl (caught_failed e), w1)
            | (Inr u, w1) \<Rightarrow>
                (let w2 = w1\<lparr>decryptedKeys := relabel_first keyId newLabel (decryptedKeys w1)\<rparr>
                 in (case renderWalletBar w2 of
                       Some e \<Rightarrow> (Inl (caught_failed e), w2)
                     | None \<Rightarrow> (Inr (), w2)))))"

subsection \<open>What the loop of decryptAllKeys leaves behind\<close>

text \<open>The entries of the records before the first one that does not decrypt.\<close>

fun decrypt_prefix :: "platform \<Rightarrow> CryptoKey option \<Rightarrow> KeyRecord list \<Rightarrow> DecryptedKey list" where
  "decrypt_prefix P k [] = []"
| "decrypt_prefix P k (r # rs) =
     (case decryptPrivateKey P (encrypted r) (iv r) k of
        Inl e \<Rightarrow> []
      | Inr plaintext \<Rightarrow>
          \<lparr>dk_id = rec_id r, dk_label = label r, dk_address = address r, dk_key = plaintext\<rparr>
            # decrypt_prefix P k rs)"

subsection \<open>A platform and worlds to run the script on\<close>

text \<open>
  A stand-in for the browser, small enough to compute with: the derived secret is the
  input material followed by the salt, a ciphertext is the key, the IV and the plaintext
  in a row, and decryption rejects a ciphertext that does not start with its key and IV.
\<close>

definition toy_encode :: "string \<Rightarrow> bytes" where
  "toy_encode s = map (\<lambda>c. of_nat (of_char c)) s"

definition toy_decode :: "bytes \<Rightarrow> string" where
  "toy_decode bs = map (\<lambda>b. char_of (unat b)) bs"

definition toy :: platform where
  "toy = \<lparr>hkdf = (\<lambda>h salt info bits ikm. ikm @ salt),
          pbkdf2 = (\<lambda>h salt iters bits pw. pw @ salt),
          aes_gcm_encrypt = (\<lambda>k n m. k @ n @ m),
          aes_gcm_decrypt = (\<lambda>k n c. if take (length k + length n) c = k @ n
                                      then Some (drop (length k + length n) c) else None),
          text_encode = toy_encode,
          text_decode = toy_decode,
          entropy = (\<lambda>i. of_nat i),
          ethers_Wallet = (\<lambda>k. Inr (''0x'' @ take 40 (drop 2 k))),
          ethers_createRandom = (\<lambda>n. (''0x'' @ replicate 64 (digit_char (n mod 10)),
                                        ''0x'' @ replicate 40 (digit_char (n mod 10)))),
          ethers_script = True\<rparr>"

text \<open>A new page on a new database.\<close>

definition new_world :: world where
  "new_world =
     \<lparr>walletState = NoWallet, decryptedKeys = [], activeKeyIndex = 0, aesKey = None,
      storedKeyCount = 0, credMethod = [], expandedAccounts = [], accountBalances = [],
      ethersLoaded = False, credentials_store = None, keys_store = Map.empty,
      keys_generated = 0, rng_pos = 0, wallets_made = 0, released = []\<rparr>"

text \<open>A locked password vault without keys: set up on a new database, then locked.\<close>

definition password_vault :: world where
  "password_vault =
     lockWallet (snd (setupWithPassword toy ''correcthorse1'' ''correcthorse1'' 5 new_world))"

text \<open>
  A credential record as \<^verbatim>\<open>setupBiometric\<close> stores it, and the page loaded on a database
  that holds it.
\<close>

definition prf_credential :: credential where
  "prf_credential =
     \<lparr>cred_id = ''primary'', cred_method = Some ''prf'', credentialId = Some [1, 2, 3],
      rpId = Some ''wallet.localhost'', transports = Some [''internal''],
      pbkdf2Salt = None, cred_createdAt = 5\<rparr>"

definition prf_vault :: world where
  "prf_vault = init (new_world\<lparr>credentials_store := Some prf_credential\<rparr>)"

text \<open>The vault right after password setup: unlocked, without keys.\<close>

definition unlocked_vault :: world where
  "unlocked_vault = snd (setupWithPassword toy ''correcthorse1'' ''correcthorse1'' 5 new_world)"

text \<open>The private key of scenario B: 0x and 32 times 11.\<close>

definition key_11 :: string where
  "key_11 = ''0x1111111111111111111111111111111111111111111111111111111111111111''"

text \<open>
  Stored records and entries for a vault with two keys: the salt that password setup drew,
  the key derived from it, an IV, the record of \<open>key_11\<close> encrypted under a given key, and
  a second record with a given ciphertext.
\<close>

definition salt_32 :: bytes where
  "salt_32 = map (entropy toy) [0..<32]"

definition vault_key :: CryptoKey where
  "vault_key = deriveAESKeyFromPassword toy ''correcthorse1'' salt_32"

definition iv_12 :: bytes where
  "iv_12 = [1, 2, 3, 4, 5, 6, 7, 8, 9, 10, 11, 12]"

definition record_main :: "CryptoKey \<Rightarrow> KeyData" where
  "record_main k =
     \<lparr>label = ''Main'', address = ''0x1111111111111111111111111111111111111111'',
      encrypted = aes_gcm_encrypt toy (material k) iv_12 (text_encode toy key_11),
      iv = iv_12, createdAt = 6\<rparr>"

definition record_second :: "bytes \<Rightarrow> KeyData" where
  "record_second ct =
     \<lparr>label = ''Key 2'', address = ''0x2222222222222222222222222222222222222222'',
      encrypted = ct, iv = iv_12, createdAt = 7\<rparr>"

definition entry_main :: DecryptedKey where
  "entry_main =
     \<lparr>dk_id = 1, dk_label = ''Main'',
      dk_address = ''0x1111111111111111111111111111111111111111'', dk_key = key_11\<rparr>"

definition entry_second :: DecryptedKey where
  "entry_second =
     \<lparr>dk_id = 2, dk_label = ''Key 2'',
      dk_address = ''0x2222222222222222222222222222222222222222'', dk_key = ''0x22''\<rparr>"

definition two_keys_unlocked :: world where
  "two_keys_unlocked =
     unlocked_vault
       \<lparr>keys_store := [1 \<mapsto> record_main vault_key,
                        2 \<mapsto> record_second
                               (aes_gcm_encrypt toy (material vault_key) iv_12 (text_encode toy ''0x22''))],
        keys_generated := 2, decryptedKeys := [entry_main, entry_second],
        storedKeyCount := 2, activeKeyIndex := 1\<rparr>"

text \<open>
  Two locked vaults whose store holds the record of \<open>key_11\<close>, encrypted under the key of
  the vault, and a second record whose ciphertext is empty: one vault with the password
  credential, one with the PRF credential and the key of the PRF output 7, 7.
\<close>

definition tampered_password_vault :: world where
  "tampered_password_vault =
     password_vault
       \<lparr>keys_store := [1 \<mapsto> record_main vault_key, 2 \<mapsto> record_second []],
        keys_generated := 2, storedKeyCount := 2\<rparr>"

definition prf_key :: CryptoKey where
  "prf_key = deriveAESKeyFromPRF toy [7, 7]"

definition tampered_prf_vault :: world where
  "tampered_prf_vault =
     prf_vault
       \<lparr>keys_store := [1 \<mapsto> record_main prf_key, 2 \<mapsto> record_second []],
        keys_generated := 2, storedKeyCount := 2\<rparr>"

section \<open>Properties\<close>

subsection \<open>Helper facts\<close>

lemma decrypt_loop_world:
  "snd (decrypt_loop P rs w) =
     w\<lparr>decryptedKeys := decryptedKeys w @ decrypt_prefix P (aesKey w) rs\<rparr>"
  by (induction rs arbitrary: w) (auto split: sum.splits)

lemma decrypt_loop_ok:
  "fst (decrypt_loop P rs w) = Inr () \<longleftrightarrow>
     (\<forall>r \<in> set rs. \<exists>p. decryptPrivateKey P (encrypted r) (iv r) (aesKey w) = Inr p)"
  by (induction rs arbitrary: w) (auto split: sum.splits)

lemma getRandomValues_length: "length (fst (getRandomValues P n w)) = n"
  by (simp add: getRandomValues_def)

lemma decryptAllKeys_aesKey: "aesKey (snd (decryptAllKeys P w)) = aesKey w"
proof -
  let ?w1 = "w\<lparr>released := released w @ decryptedKeys w, decryptedKeys := []\<rparr>"
  obtain r w2 where d: "decrypt_loop P (getEncryptedKeys w) ?w1 = (r, w2)"
    by (cases "decrypt_loop P (getEncryptedKeys w) ?w1")
  have "aesKey w2 = aesKey w"
    using decrypt_loop_world [of P "getEncryptedKeys w" ?w1] d by simp
  then show ?thesis
    using d by (cases r) (simp_all add: decryptAllKeys_def)
qed

lemma unlockWithPassword_key:
  assumes "credentials_store w = Some c" "pbkdf2Salt c = Some s"
    and "unlockWithPassword P pw w = (Inr (), w')"
  shows "aesKey w' = Some (deriveAESKeyFromPassword P pw s)"
proof -
  let ?w1 = "w\<lparr>aesKey := Some (deriveAESKeyFromPassword P pw s)\<rparr>"
  obtain r w2 where d: "decryptAllKeys P ?w1 = (r, w2)"
    by (cases "decryptAllKeys P ?w1")
  have k: "aesKey w2 = Some (deriveAESKeyFromPassword P pw s)"
    using decryptAllKeys_aesKey [of P ?w1] d by simp
  from assms d have "pw \<noteq> []" and "r = Inr ()" and "w' = w2\<lparr>walletState := Unlocked\<rparr>"
    by (auto simp: unlockWithPassword_def getCredential_def split: if_splits sum.splits)
  with k show ?thesis by simp
qed

lemmas run_defs =
  new_world_def setupWithPassword_def lockWallet_def wipe_keys.simps [of 0 "[]"]
  getRandomValues_def renderWalletBar_def
  saveCredential_def getCredential_def decryptAllKeys_def getEncryptedKeys_def
  unlockWithPassword_def unlockWallet_def init_def unlock_caught_def

lemma unlockWallet_key:
  assumes "unlockWallet P (Inr (Some out)) w = (Inr (), w')" and "credMethod w \<noteq> ''password''"
  shows "aesKey w' = Some (deriveAESKeyFromPRF P out)"
proof -
  obtain ch w1 where g: "getRandomValues P 32 w = (ch, w1)"
    by (cases "getRandomValues P 32 w")
  let ?w2 = "w1\<lparr>aesKey := Some (deriveAESKeyFromPRF P out)\<rparr>"
  obtain r w3 where d: "decryptAllKeys P ?w2 = (r, w3)"
    by (cases "decryptAllKeys P ?w2")
  have k: "aesKey w3 = Some (deriveAESKeyFromPRF P out)"
    using decryptAllKeys_aesKey [of P ?w2] d by simp
  from assms g d have "w' = w3\<lparr>walletState := Unlocked\<rparr>"
    by (auto simp: unlockWallet_def unlock_caught_def split: option.splits sum.splits if_splits)
  with k show ?thesis by simp
qed

lemma setupWithPassword_ok:
  assumes "8 \<le> length pw"
  shows "\<exists>s w'. length s = 32 \<and> setupWithPassword P pw pw now w = (Inr (), w') \<and>
           map_option pbkdf2Salt (credentials_store w') = Some (Some s) \<and>
           aesKey w' = Some (deriveAESKeyFromPassword P pw s)"
proof -
  obtain s w1 where g: "getRandomValues P 32 w = (s, w1)"
    by (cases "getRandomValues P 32 w")
  have "length s = 32"
    using getRandomValues_length [of P 32 w] g by simp
  moreover from assms have "pw \<noteq> []" by auto
  ultimately show ?thesis
    using assms g by (simp add: setupWithPassword_def saveCredential_def)
qed

lemma records_upto_cong:
  "(\<And>k. 1 \<le> k \<Longrightarrow> k \<le> n \<Longrightarrow> m k = m' k) \<Longrightarrow> records_upto m n = records_upto m' n"
  by (induction n) auto

lemma getEncryptedKeys_save:
  "getEncryptedKeys (saveEncryptedKey d w) = getEncryptedKeys w @ [with_id (Suc (keys_generated w)) d]"
proof -
  have "records_upto ((keys_store w)(Suc (keys_generated w) \<mapsto> d)) (keys_generated w) =
        records_upto (keys_store w) (keys_generated w)"
    by (rule records_upto_cong) simp
  then show ?thesis
    by (simp add: getEncryptedKeys_def saveEncryptedKey_def)
qed

lemma toy_codec: "toy_decode (toy_encode s) = s"
  by (induction s) (simp_all add: toy_encode_def toy_decode_def unat_of_nat)

lemma toy_aes:
  "aes_gcm_decrypt toy k n (aes_gcm_encrypt toy k n m) = Some m"
  by (simp add: toy_def)

lemma encrypt_and_store_result:
  "encrypt_and_store P lbl addr k ak now w =
     (Inr (),
      w\<lparr>rng_pos := rng_pos w + 12,
        keys_store := (keys_store w)(Suc (keys_generated w) \<mapsto>
          \<lparr>label = lbl, address = addr,
           encrypted = sealed_encrypted (fst (encryptPrivateKey P k ak w)),
           iv = sealed_iv (fst (encryptPrivateKey P k ak w)), createdAt = now\<rparr>),
        keys_generated := Suc (keys_generated w),
        decryptedKeys := decryptedKeys w @
          [\<lparr>dk_id = Suc (keys_generated w), dk_label = lbl, dk_address = addr, dk_key = k\<rparr>],
        activeKeyIndex := int (length (decryptedKeys w)),
        storedKeyCount := Suc (length (decryptedKeys w))\<rparr>)"
proof -
  obtain s w1 where e: "encryptPrivateKey P k ak w = (s, w1)"
    by (cases "encryptPrivateKey P k ak w")
  then have w1: "w1 = w\<lparr>rng_pos := rng_pos w + 12\<rparr>"
    by (auto simp: encryptPrivateKey_def getRandomValues_def Let_def)
  let ?d = "\<lparr>label = lbl, address = addr, encrypted = sealed_encrypted s,
             iv = sealed_iv s, createdAt = now\<rparr>"
  have g: "getEncryptedKeys (saveEncryptedKey ?d w1) =
           getEncryptedKeys w1 @ [with_id (Suc (keys_generated w1)) ?d]"
    by (rule getEncryptedKeys_save)
  show ?thesis
    unfolding encrypt_and_store_def e
    by (simp add: g Let_def) (simp add: w1 saveEncryptedKey_def with_id_def)
qed

lemma records_upto_above:
  "n < k \<Longrightarrow> records_upto (m(k \<mapsto> d)) n = records_upto m n"
  by (rule records_upto_cong) simp

lemma ensureEthers_ok:
  "ethersLoaded w \<or> ethers_script P \<Longrightarrow> ensureEthers P w = (Inr (), w\<lparr>ethersLoaded := True\<rparr>)"
  by (auto simp: ensureEthers_def)

lemma doImportKey_rejects:
  assumes "\<not> key_format_ok (if startsWith_0x (trim keyInput) then trim keyInput else ''0x'' @ trim keyInput)"
  shows "\<exists>m. doImportKey P labelInput keyInput now w = (Inl (ValidationError m), w)"
  using assms by (auto simp: doImportKey_def Let_def)

lemma doImportKey_not_validation:
  assumes "key_format_ok (if startsWith_0x (trim keyInput) then trim keyInput else ''0x'' @ trim keyInput)"
  shows "fst (doImportKey P labelInput keyInput now w) \<noteq> Inl (ValidationError m)"
proof -
  from assms have "trim keyInput \<noteq> []"
    by (auto simp: key_format_ok_def startsWith_0x_def split: if_splits)
  with assms show ?thesis
    by (auto simp: doImportKey_def Let_def caught_failed_def split: option.splits sum.splits prod.splits)
qed

lemma doImportKey_accepts:
  assumes f: "key_format_ok k"
    and k: "k = (if startsWith_0x (trim keyInput) then trim keyInput else ''0x'' @ trim keyInput)"
    and a: "aesKey w = Some ak"
    and e: "ethersLoaded w \<or> ethers_script P"
    and d: "ethers_Wallet P k = Inr addr"
  shows "doImportKey P labelInput keyInput now w =
           (Inr (), snd (encrypt_and_store P
             (if trim labelInput \<noteq> [] then trim labelInput
              else ''Key '' @ string_of_nat (storedKeyCount w + 1))
             addr k ak now (w\<lparr>ethersLoaded := True\<rparr>)))"
proof -
  from f k have n: "trim keyInput \<noteq> []"
    by (auto simp: key_format_ok_def startsWith_0x_def split: if_splits)
  show ?thesis
    using f k a d n ensureEthers_ok [OF e]
    by (simp add: doImportKey_def Let_def encrypt_and_store_result split: if_splits)
qed



lemma key_11_ok: "key_format_ok key_11" and key_11_trim: "trim key_11 = key_11"
  and key_11_0x: "startsWith_0x key_11"
  by (simp_all add: key_11_def key_format_ok_def is_hex_def trim_def is_space_def startsWith_0x_def)

lemma unlocked_vault_facts:
  "aesKey unlocked_vault =
     Some (deriveAESKeyFromPassword toy ''correcthorse1'' (map (entropy toy) [0..<32]))"
  "getEncryptedKeys unlocked_vault = []"
  "decryptedKeys unlocked_vault = []"
  "storedKeyCount unlocked_vault = 0"
  "keys_generated unlocked_vault = 0"
  "walletState unlocked_vault = Unlocked"
  by (simp_all add: unlocked_vault_def run_defs)



lemma getEncryptedKeys_globals [simp]:
  "getEncryptedKeys (w\<lparr>ethersLoaded := b\<rparr>) = getEncryptedKeys w"
  "getEncryptedKeys (w\<lparr>wallets_made := n\<rparr>) = getEncryptedKeys w"
  by (simp_all add: getEncryptedKeys_def)


lemma with_id_relabel:
  "without_id ((with_id k d)\<lparr>label := l\<rparr>) = d\<lparr>label := l\<rparr>"
  "rec_id ((with_id k d)\<lparr>label := l\<rparr>) = k"
  "with_id k (d\<lparr>label := l\<rparr>) = (with_id k d)\<lparr>label := l\<rparr>"
  "rec_id (with_id k d) = k"
  by (simp_all add: with_id_def without_id_def)

lemma records_upto_relabel:
  "m k = Some d \<Longrightarrow>
   records_upto (m(k \<mapsto> d\<lparr>label := l\<rparr>)) n =
     map (\<lambda>r. if rec_id r = k then r\<lparr>label := l\<rparr> else r) (records_upto m n)"
  by (induction n) (auto simp: with_id_relabel split: option.splits)

lemma getEncryptedKeys_relabel:
  "keys_store w k = Some d \<Longrightarrow>
   getEncryptedKeys (w\<lparr>keys_store := (keys_store w)(k \<mapsto> d\<lparr>label := l\<rparr>), decryptedKeys := ds\<rparr>) =
     map (\<lambda>r. if rec_id r = k then r\<lparr>label := l\<rparr> else r) (getEncryptedKeys w)"
  by (simp add: getEncryptedKeys_def records_upto_relabel)

lemma relabel_first_rel:
  "list_all2 (\<lambda>x y. y = x \<or> (dk_id x = k \<and> y = x\<lparr>dk_label := l\<rparr>)) ds (relabel_first k l ds)"
  by (induction ds) (auto intro: list_all2_refl)

lemma relabel_map_rel:
  "list_all2 (\<lambda>r r'. r' = r \<or> (rec_id r = k \<and> r' = r\<lparr>label := l\<rparr>)) rs
     (map (\<lambda>r. if rec_id r = k then r\<lparr>label := l\<rparr> else r) rs)"
  by (induction rs) auto

lemma updateKeyLabel_found:
  assumes "store_get w k = Some r"
  shows "updateKeyLabel k l w =
           (Inr (), w\<lparr>keys_store := (keys_store w)(k \<mapsto> (without_id r)\<lparr>label := l\<rparr>)\<rparr>)"
    and "keys_store w k = Some (without_id r)"
  using assms
  by (auto simp: updateKeyLabel_def store_get_def store_put_def with_id_def without_id_def
      split: if_splits)

lemma updateKeyLabel_missing:
  "store_get w k = None \<Longrightarrow> updateKeyLabel k l w = (Inl (Exn ''Error'' ''Key not found''), w)"
  by (simp add: updateKeyLabel_def)

lemma doRenameKey_found:
  assumes g: "store_get w k = Some r" and n: "trim labelInput \<noteq> []"
  shows "snd (doRenameKey k labelInput w) =
           w\<lparr>keys_store := (keys_store w)(k \<mapsto> (without_id r)\<lparr>label := trim labelInput\<rparr>),
             decryptedKeys := relabel_first k (trim labelInput) (decryptedKeys w)\<rparr>"
    and "fst (doRenameKey k labelInput w) \<in> {Inr ()} \<union> range (\<lambda>m. Inl (Failed m))"
  using n by (auto simp: doRenameKey_def Let_def updateKeyLabel_found(1) [OF g] caught_failed_def
      split: option.splits)

lemma doRenameKey_refused:
  assumes "store_get w k = None \<or> trim labelInput = []"
  shows "snd (doRenameKey k labelInput w) = w"
  using assms by (auto simp: doRenameKey_def Let_def updateKeyLabel_missing)

lemma two_keys_unlocked_store:
  "getEncryptedKeys two_keys_unlocked =
     [with_id 1 (record_main vault_key),
      with_id 2 (record_second
                   (aes_gcm_encrypt toy (material vault_key) iv_12 (text_encode toy ''0x22'')))]"
  "store_get two_keys_unlocked (Suc 0) = Some (with_id 1 (record_main vault_key))"
  "decryptedKeys two_keys_unlocked = [entry_main, entry_second]"
  "walletState two_keys_unlocked = Unlocked"
  "activeKeyIndex two_keys_unlocked = 1"
  by (simp_all add: two_keys_unlocked_def getEncryptedKeys_def store_get_def numeral_2_eq_2
        unlocked_vault_def run_defs)

lemma wipe_keys_map:
  "wipe_keys i ds = take i ds @ map (\<lambda>d. d\<lparr>dk_key := []\<rparr>) (drop i ds)"
proof (induction i ds rule: wipe_keys.induct)
  case (1 i ds)
  show ?case
  proof (cases "i < length ds")
    case True
    let ?x = "(ds ! i)\<lparr>dk_key := []\<rparr>"
    have "wipe_keys i ds = wipe_keys (Suc i) (ds[i := ?x])"
      using True by (simp add: wipe_keys.simps [of i ds])
    also have "\<dots> = take (Suc i) (ds[i := ?x]) @
                 map (\<lambda>d. d\<lparr>dk_key := []\<rparr>) (drop (Suc i) (ds[i := ?x]))"
      using "1.IH" [OF True] .
    also have "take (Suc i) (ds[i := ?x]) = take i ds @ [?x]"
      using True by (simp add: take_Suc_conv_app_nth)
    also have "drop (Suc i) (ds[i := ?x]) = drop (Suc i) ds"
      by simp
    finally show ?thesis
      using True by (simp add: Cons_nth_drop_Suc [symmetric])
  next
    case False
    then show ?thesis
      by (simp add: wipe_keys.simps [of i ds])
  qed
qed

lemma password_vault_facts:
  "walletState password_vault = Locked" "decryptedKeys password_vault = []"
  "aesKey password_vault = None" "activeKeyIndex password_vault = 0"
  "expandedAccounts password_vault = []" "accountBalances password_vault = []"
  "credMethod password_vault = ''password''" "released password_vault = []"
  "credentials_store password_vault =
     Some \<lparr>cred_id = ''primary'', cred_method = Some ''password'', credentialId = None,
           rpId = None, transports = None, pbkdf2Salt = Some salt_32, cred_createdAt = 5\<rparr>"
  by (simp_all add: password_vault_def salt_32_def run_defs)

lemma toy_decrypt_main:
  "decryptPrivateKey toy (encrypted (record_main k)) (iv (record_main k)) (Some k) = Inr key_11"
proof -
  have "text_decode toy (text_encode toy key_11) = key_11"
    using toy_codec by (simp add: toy_def)
  then show ?thesis
    by (simp add: decryptPrivateKey_def record_main_def toy_aes)
qed

lemma toy_decrypt_empty:
  "decryptPrivateKey toy [] iv_12 (Some k) = Inl (Exn ''OperationError'' [])"
  by (simp add: decryptPrivateKey_def toy_def iv_12_def)

lemma prf_vault_facts:
  "walletState prf_vault = Locked" "decryptedKeys prf_vault = []" "aesKey prf_vault = None"
  "credMethod prf_vault = ''prf''" "credentials_store prf_vault = Some prf_credential"
  "rng_pos prf_vault = 0" "released prf_vault = []"
  by (simp_all add: prf_vault_def prf_credential_def run_defs)

text \<open>
  What a password unlock leaves when some record does not decrypt: the error, no key, the
  entries of the old list let go, and in \<open>decryptedKeys\<close> the entries of the records before
  the first one that failed.
\<close>

lemma unlockWithPassword_failure:
  assumes pw: "pw \<noteq> []" and c: "credentials_store w = Some c" and s: "pbkdf2Salt c = Some s"
    and bad: "\<exists>r \<in> set (getEncryptedKeys w). \<forall>p.
                decryptPrivateKey P (encrypted r) (iv r) (Some (deriveAESKeyFromPassword P pw s))
                  \<noteq> Inr p"
  shows "unlockWithPassword P pw w =
           (Inl (DecryptionError ''Wrong password or decryption failed.''),
            w\<lparr>aesKey := None, released := released w @ decryptedKeys w,
              decryptedKeys := decrypt_prefix P (Some (deriveAESKeyFromPassword P pw s))
                                 (getEncryptedKeys w)\<rparr>)"
proof -
  let ?k = "Some (deriveAESKeyFromPassword P pw s)"
  let ?w1 = "w\<lparr>aesKey := ?k, released := released w @ decryptedKeys w, decryptedKeys := []\<rparr>"
  obtain r w2 where d: "decrypt_loop P (getEncryptedKeys w) ?w1 = (r, w2)"
    by (cases "decrypt_loop P (getEncryptedKeys w) ?w1")
  have "fst (decrypt_loop P (getEncryptedKeys w) ?w1) \<noteq> Inr ()"
    using bad by (simp add: decrypt_loop_ok)
  with d obtain e where r: "r = Inl e"
    by (cases r) auto
  have w2: "w2 = ?w1\<lparr>decryptedKeys := decrypt_prefix P ?k (getEncryptedKeys w)\<rparr>"
    using decrypt_loop_world [of P "getEncryptedKeys w" ?w1] d by simp
  have g: "getEncryptedKeys (w\<lparr>aesKey := ?k\<rparr>) = getEncryptedKeys w"
    by (simp add: getEncryptedKeys_def)
  show ?thesis
    using pw c s d r w2
    by (simp add: unlockWithPassword_def getCredential_def decryptAllKeys_def g)
qed

text \<open>The state the page starts in when a credential exists: Locked, no key, no entries.\<close>

lemma init_page_load_locked:
  "credentials_store w \<noteq> None \<Longrightarrow>
   walletState (init (page_load w)) = Locked \<and> aesKey (init (page_load w)) = None \<and>
   decryptedKeys (init (page_load w)) = [] \<and>
   storedKeyCount (init (page_load w)) = length (getEncryptedKeys w)"
  by (auto simp: init_def page_load_def getCredential_def getEncryptedKeys_def)

subsection \<open>Password setup validates the length itself\<close>

text \<open>
  C8. A password of fewer than 8 characters makes \<open>setupWithPassword\<close> return a
  validation error and the world it was given: no random byte is drawn for a salt, no key
  is derived, nothing is written to the credential store and no global changes. The check
  is in the handler, whatever the second input holds.
\<close>

theorem setupWithPassword_rejects_short_password:
  "length pw < 8 \<Longrightarrow>
   setupWithPassword P pw confirm now w =
     (Inl (ValidationError (if pw = [] then ''Please enter a password.''
                            else ''Password must be at least 8 characters.'')), w)"
  by (simp add: setupWithPassword_def)

theorem setupWithPassword_rejects_short_password_witness:
  "length ''short'' < 8 \<and>
   setupWithPassword toy ''short'' ''short'' 5 new_world =
     (Inl (ValidationError ''Password must be at least 8 characters.''), new_world)"
  using setupWithPassword_rejects_short_password [of "''short''" toy "''short''" 5 new_world]
  by simp

subsection \<open>Key derivation\<close>

text \<open>
  C5. \<open>deriveAESKeyFromPRF\<close> is HKDF with SHA-256, the salt 'wallet-encryption-v1' and the
  info 'AES-GCM Wallet Encryption Key V1'; \<open>deriveAESKeyFromPassword\<close> is PBKDF2 with
  SHA-256 and 600000 iterations over the given salt; either key is a 256-bit AES-GCM key
  that is not extractable, and a function of the input alone. Password setup draws 32
  bytes, stores them as the salt of the credential and holds the key derived from them; a
  password unlock that succeeds holds the key derived from the password and the stored
  salt, and a PRF unlock that succeeds the key derived from the PRF output: the same
  input gives the same key again.
\<close>

theorem key_derivation_parameters:
  "deriveAESKeyFromPRF P prfOutput =
     \<lparr>algorithm = ''AES-GCM'', key_bits = 256, extractable = False,
      usages = [''encrypt'', ''decrypt''],
      material = hkdf P ''SHA-256'' (text_encode P ''wallet-encryption-v1'')
                   (text_encode P ''AES-GCM Wallet Encryption Key V1'') 256 prfOutput\<rparr>
   \<and> deriveAESKeyFromPassword P pw salt =
     \<lparr>algorithm = ''AES-GCM'', key_bits = 256, extractable = False,
      usages = [''encrypt'', ''decrypt''],
      material = pbkdf2 P ''SHA-256'' salt 600000 256 (text_encode P pw)\<rparr>
   \<and> (8 \<le> length pw \<longrightarrow>
        (\<exists>s w'. length s = 32 \<and> setupWithPassword P pw pw now w = (Inr (), w') \<and>
           map_option pbkdf2Salt (credentials_store w') = Some (Some s) \<and>
           aesKey w' = Some (deriveAESKeyFromPassword P pw s)))
   \<and> (credentials_store v = Some c \<and> pbkdf2Salt c = Some s' \<and>
        fst (unlockWithPassword P pw v) = Inr () \<longrightarrow>
          aesKey (snd (unlockWithPassword P pw v)) = Some (deriveAESKeyFromPassword P pw s'))
   \<and> (credMethod v \<noteq> ''password'' \<and> fst (unlockWallet P (Inr (Some prfOutput)) v) = Inr () \<longrightarrow>
          aesKey (snd (unlockWallet P (Inr (Some prfOutput)) v)) =
            Some (deriveAESKeyFromPRF P prfOutput))"
proof (intro conjI impI)
  show "deriveAESKeyFromPRF P prfOutput =
     \<lparr>algorithm = ''AES-GCM'', key_bits = 256, extractable = False,
      usages = [''encrypt'', ''decrypt''],
      material = hkdf P ''SHA-256'' (text_encode P ''wallet-encryption-v1'')
                   (text_encode P ''AES-GCM Wallet Encryption Key V1'') 256 prfOutput\<rparr>"
    by (simp add: deriveAESKeyFromPRF_def PRF_SALT_def HKDF_INFO_def)
  show "deriveAESKeyFromPassword P pw salt =
     \<lparr>algorithm = ''AES-GCM'', key_bits = 256, extractable = False,
      usages = [''encrypt'', ''decrypt''],
      material = pbkdf2 P ''SHA-256'' salt 600000 256 (text_encode P pw)\<rparr>"
    by (simp add: deriveAESKeyFromPassword_def PBKDF2_ITERATIONS_def)
next
  assume "8 \<le> length pw"
  then show "\<exists>s w'. length s = 32 \<and> setupWithPassword P pw pw now w = (Inr (), w') \<and>
           map_option pbkdf2Salt (credentials_store w') = Some (Some s) \<and>
           aesKey w' = Some (deriveAESKeyFromPassword P pw s)"
    by (rule setupWithPassword_ok)
next
  assume a: "credentials_store v = Some c \<and> pbkdf2Salt c = Some s' \<and>
        fst (unlockWithPassword P pw v) = Inr ()"
  then have "unlockWithPassword P pw v = (Inr (), snd (unlockWithPassword P pw v))"
    by (metis prod.collapse)
  with a show "aesKey (snd (unlockWithPassword P pw v)) = Some (deriveAESKeyFromPassword P pw s')"
    using unlockWithPassword_key by blast
next
  assume a: "credMethod v \<noteq> ''password'' \<and> fst (unlockWallet P (Inr (Some prfOutput)) v) = Inr ()"
  then have "unlockWallet P (Inr (Some prfOutput)) v = (Inr (), snd (unlockWallet P (Inr (Some prfOutput)) v))"
    by (metis prod.collapse)
  with a show "aesKey (snd (unlockWallet P (Inr (Some prfOutput)) v)) =
            Some (deriveAESKeyFromPRF P prfOutput)"
    using unlockWallet_key by blast
qed

theorem key_derivation_parameters_witness:
  "8 \<le> length ''correcthorse1''
   \<and> pbkdf2Salt (the (credentials_store password_vault)) = Some (map (entropy toy) [0..<32])
   \<and> fst (unlockWithPassword toy ''correcthorse1'' password_vault) = Inr ()
   \<and> aesKey (snd (unlockWithPassword toy ''correcthorse1'' password_vault)) =
       Some (deriveAESKeyFromPassword toy ''correcthorse1'' (map (entropy toy) [0..<32]))
   \<and> credMethod prf_vault \<noteq> ''password''
   \<and> fst (unlockWallet toy (Inr (Some [7, 7])) prf_vault) = Inr ()
   \<and> aesKey (snd (unlockWallet toy (Inr (Some [7, 7])) prf_vault)) =
       Some (deriveAESKeyFromPRF toy [7, 7])"
proof -
  have c: "credentials_store password_vault =
             Some \<lparr>cred_id = ''primary'', cred_method = Some ''password'',
                   credentialId = None, rpId = None, transports = None,
                   pbkdf2Salt = Some (map (entropy toy) [0..<32]), cred_createdAt = 5\<rparr>"
    by (simp add: password_vault_def run_defs)
  have u: "fst (unlockWithPassword toy ''correcthorse1'' password_vault) = Inr ()"
    by (simp add: password_vault_def run_defs)
  have m: "credMethod prf_vault \<noteq> ''password''"
    by (simp add: prf_vault_def prf_credential_def run_defs)
  have p: "fst (unlockWallet toy (Inr (Some [7, 7])) prf_vault) = Inr ()"
    by (simp add: prf_vault_def prf_credential_def run_defs)
  show ?thesis
    using key_derivation_parameters
      [of toy "[7, 7]" "''correcthorse1''" "[]" 5 new_world password_vault
          "the (credentials_store password_vault)" "map (entropy toy) [0..<32]"]
          key_derivation_parameters
      [of toy "[7, 7]" "''correcthorse1''" "[]" 5 new_world prf_vault]
          c u m p
    by simp
qed

subsection \<open>Encrypting and decrypting a private key\<close>

text \<open>
  C6. If \<open>encryptPrivateKey\<close> seals the string \<open>K\<close> under a key, then \<open>decryptPrivateKey\<close>
  with the same key, the ciphertext and the IV that the encryption produced returns \<open>K\<close>.
  The two hypotheses are the contracts of the browser functions the script calls:
  AES-GCM decryption undoes encryption under the same key and IV, and TextDecoder undoes
  TextEncoder on \<open>K\<close>.
\<close>

theorem encrypt_then_decrypt:
  assumes "encryptPrivateKey P K k w = (s, w')"
    and "aes_gcm_decrypt P (material k) (sealed_iv s)
           (aes_gcm_encrypt P (material k) (sealed_iv s) (text_encode P K)) =
         Some (text_encode P K)"
    and "text_decode P (text_encode P K) = K"
  shows "decryptPrivateKey P (sealed_encrypted s) (sealed_iv s) (Some k) = Inr K"
  using assms
  by (auto simp: encryptPrivateKey_def decryptPrivateKey_def getRandomValues_def Let_def)

theorem encrypt_then_decrypt_witness:
  "decryptPrivateKey toy
     (sealed_encrypted (fst (encryptPrivateKey toy ''0x11'' (deriveAESKeyFromPRF toy [7, 7]) new_world)))
     (sealed_iv (fst (encryptPrivateKey toy ''0x11'' (deriveAESKeyFromPRF toy [7, 7]) new_world)))
     (Some (deriveAESKeyFromPRF toy [7, 7])) = Inr ''0x11''"
proof -
  have t: "text_decode toy (text_encode toy ''0x11'') = ''0x11''"
    using toy_codec by (simp add: toy_def)
  show ?thesis
    by (rule encrypt_then_decrypt [OF prod.collapse [symmetric] _ t]) (rule toy_aes)
qed

subsection \<open>Importing a key\<close>

text \<open>
  C7. Let \<open>k\<close> be the key input after \<^verbatim>\<open>trim\<close>, with '0x' put in front unless it is there.
  If \<open>k\<close> is not '0x' and 64 hexadecimal digits, \<open>doImportKey\<close> reports a validation error
  and returns the world unchanged: nothing was encrypted, nothing stored. If it is, \<open>k\<close>
  has 66 characters and the result is never a validation error. If moreover the wallet
  holds its key, ethers.js is there and derives the address \<open>addr\<close> of \<open>k\<close>, the import
  succeeds: exactly one record is added to the store, with the address \<open>addr\<close> and the
  encryption of \<open>k\<close>, which decrypts to \<open>k\<close> under the held key (given the contracts of
  AES-GCM and of the text codec); one entry with the plaintext \<open>k\<close> is appended to
  \<open>decryptedKeys\<close>; and \<open>activeKeyIndex\<close> is the position of that entry.
\<close>

theorem doImportKey_validates_then_stores:
  fixes keyInput labelInput :: string and w :: world and P :: platform
  defines "k \<equiv> (if startsWith_0x (trim keyInput) then trim keyInput else ''0x'' @ trim keyInput)"
    and "lbl \<equiv> (if trim labelInput \<noteq> [] then trim labelInput
                  else ''Key '' @ string_of_nat (storedKeyCount w + 1))"
    and "n \<equiv> fst (getRandomValues P 12 w)"
  shows
  "(\<not> key_format_ok k \<longrightarrow>
      (\<exists>m. doImportKey P labelInput keyInput now w = (Inl (ValidationError m), w)))
   \<and> (key_format_ok k \<longrightarrow>
        length k = 66 \<and> (\<forall>m. fst (doImportKey P labelInput keyInput now w) \<noteq> Inl (ValidationError m)))
   \<and> (key_format_ok k \<and> aesKey w = Some ak \<and> (ethersLoaded w \<or> ethers_script P) \<and>
        ethers_Wallet P k = Inr addr \<longrightarrow>
        (case doImportKey P labelInput keyInput now w of
           (r, w') \<Rightarrow>
             r = Inr () \<and>
             getEncryptedKeys w' = getEncryptedKeys w @
               [\<lparr>label = lbl, address = addr,
                 encrypted = aes_gcm_encrypt P (material ak) n (text_encode P k),
                 iv = n, createdAt = now, rec_id = Suc (keys_generated w)\<rparr>] \<and>
             (aes_gcm_decrypt P (material ak) n
                (aes_gcm_encrypt P (material ak) n (text_encode P k)) = Some (text_encode P k) \<and>
              text_decode P (text_encode P k) = k \<longrightarrow>
                decryptPrivateKey P (aes_gcm_encrypt P (material ak) n (text_encode P k)) n
                  (aesKey w') = Inr k) \<and>
             decryptedKeys w' = decryptedKeys w @
               [\<lparr>dk_id = Suc (keys_generated w), dk_label = lbl, dk_address = addr, dk_key = k\<rparr>] \<and>
             activeKeyIndex w' = int (length (decryptedKeys w)) \<and>
             at_index (decryptedKeys w') (activeKeyIndex w') =
               Some \<lparr>dk_id = Suc (keys_generated w), dk_label = lbl, dk_address = addr, dk_key = k\<rparr> \<and>
             storedKeyCount w' = length (decryptedKeys w') \<and>
             aesKey w' = aesKey w \<and> walletState w' = walletState w \<and>
             credentials_store w' = credentials_store w))"
proof (intro conjI impI allI)
  assume "\<not> key_format_ok k"
  then show "\<exists>m. doImportKey P labelInput keyInput now w = (Inl (ValidationError m), w)"
    unfolding k_def by (rule doImportKey_rejects)
next
  assume "key_format_ok k"
  then show "length k = 66" by (simp add: key_format_ok_def)
next
  fix m assume "key_format_ok k"
  then show "fst (doImportKey P labelInput keyInput now w) \<noteq> Inl (ValidationError m)"
    unfolding k_def by (rule doImportKey_not_validation)
next
  assume h: "key_format_ok k \<and> aesKey w = Some ak \<and> (ethersLoaded w \<or> ethers_script P) \<and>
        ethers_Wallet P k = Inr addr"
  then have r: "doImportKey P labelInput keyInput now w =
           (Inr (), snd (encrypt_and_store P lbl addr k ak now (w\<lparr>ethersLoaded := True\<rparr>)))"
    unfolding lbl_def using doImportKey_accepts [of k keyInput w ak P addr labelInput now]
    by (simp add: k_def)
  have s: "getEncryptedKeys (snd (encrypt_and_store P lbl addr k ak now (w\<lparr>ethersLoaded := True\<rparr>))) =
        getEncryptedKeys w @
               [\<lparr>label = lbl, address = addr,
                 encrypted = aes_gcm_encrypt P (material ak) n (text_encode P k),
                 iv = n, createdAt = now, rec_id = Suc (keys_generated w)\<rparr>]"
    by (simp add: encrypt_and_store_result encryptPrivateKey_def getRandomValues_def Let_def
          n_def getEncryptedKeys_def records_upto_above with_id_def)
  show "case doImportKey P labelInput keyInput now w of
           (r, w') \<Rightarrow>
             r = Inr () \<and>
             getEncryptedKeys w' = getEncryptedKeys w @
               [\<lparr>label = lbl, address = addr,
                 encrypted = aes_gcm_encrypt P (material ak) n (text_encode P k),
                 iv = n, createdAt = now, rec_id = Suc (keys_generated w)\<rparr>] \<and>
             (aes_gcm_decrypt P (material ak) n
                (aes_gcm_encrypt P (material ak) n (text_encode P k)) = Some (text_encode P k) \<and>
              text_decode P (text_encode P k) = k \<longrightarrow>
                decryptPrivateKey P (aes_gcm_encrypt P (material ak) n (text_encode P k)) n
                  (aesKey w') = Inr k) \<and>
             decryptedKeys w' = decryptedKeys w @
               [\<lparr>dk_id = Suc (keys_generated w), dk_label = lbl, dk_address = addr, dk_key = k\<rparr>] \<and>
             activeKeyIndex w' = int (length (decryptedKeys w)) \<and>
             at_index (decryptedKeys w') (activeKeyIndex w') =
               Some \<lparr>dk_id = Suc (keys_generated w), dk_label = lbl, dk_address = addr, dk_key = k\<rparr> \<and>
             storedKeyCount w' = length (decryptedKeys w') \<and>
             aesKey w' = aesKey w \<and> walletState w' = walletState w \<and>
             credentials_store w' = credentials_store w"
    unfolding r prod.case
  proof (intro conjI impI)
    show "getEncryptedKeys (snd (encrypt_and_store P lbl addr k ak now (w\<lparr>ethersLoaded := True\<rparr>))) =
        getEncryptedKeys w @
               [\<lparr>label = lbl, address = addr,
                 encrypted = aes_gcm_encrypt P (material ak) n (text_encode P k),
                 iv = n, createdAt = now, rec_id = Suc (keys_generated w)\<rparr>]"
      by (rule s)
  qed (use h in \<open>simp_all add: encrypt_and_store_result decryptPrivateKey_def at_index_def\<close>)
qed

theorem doImportKey_validates_then_stores_witness:
  "key_format_ok key_11 \<and>
   (case doImportKey toy ''Main'' key_11 6 unlocked_vault of
      (r, w') \<Rightarrow>
        r = Inr () \<and> map label (getEncryptedKeys w') = [''Main''] \<and>
        map address (getEncryptedKeys w') = [''0x'' @ take 40 (drop 2 key_11)] \<and>
        map dk_key (decryptedKeys w') = [key_11] \<and> activeKeyIndex w' = 0) \<and>
   \<not> key_format_ok ''0xxyz'' \<and>
   (\<exists>m. doImportKey toy ''Main'' ''xyz'' 6 unlocked_vault = (Inl (ValidationError m), unlocked_vault))"
proof -
  have d: "ethers_Wallet toy key_11 = Inr (''0x'' @ take 40 (drop 2 key_11))"
    and e: "ethers_script toy"
    by (simp_all add: toy_def)
  have x: "trim ''xyz'' = ''xyz''" "\<not> startsWith_0x ''xyz''" "\<not> key_format_ok ''0xxyz''"
    by (simp_all add: trim_def is_space_def startsWith_0x_def key_format_ok_def)
  have m: "trim ''Main'' = ''Main''"
    by (simp add: trim_def is_space_def)
  note a = doImportKey_validates_then_stores
             [of key_11 toy "''Main''" 6 unlocked_vault
                 "deriveAESKeyFromPassword toy ''correcthorse1'' (map (entropy toy) [0..<32])"
                 "''0x'' @ take 40 (drop 2 key_11)"]
  note b = doImportKey_validates_then_stores [of "''xyz''" toy "''Main''" 6 unlocked_vault]
  from a d e have
    "case doImportKey toy ''Main'' key_11 6 unlocked_vault of
      (r, w') \<Rightarrow>
        r = Inr () \<and> map label (getEncryptedKeys w') = [''Main''] \<and>
        map address (getEncryptedKeys w') = [''0x'' @ take 40 (drop 2 key_11)] \<and>
        map dk_key (decryptedKeys w') = [key_11] \<and> activeKeyIndex w' = 0"
    by (simp add: key_11_ok key_11_trim key_11_0x unlocked_vault_facts m split: prod.splits)
  moreover from b x have
    "\<exists>m. doImportKey toy ''Main'' ''xyz'' 6 unlocked_vault = (Inl (ValidationError m), unlocked_vault)"
    by simp
  ultimately show ?thesis
    using key_11_ok x by simp
qed

subsection \<open>Generating keys\<close>



subsection \<open>Renaming a key\<close>

text \<open>
  C10. Whatever the id and the label input, \<open>doRenameKey\<close> leaves every stored record as
  it was or, for the record with that id, as it was but for the label; likewise every
  entry of \<open>decryptedKeys\<close>; and nothing else in the world changes. If the store has a
  record with the id and the trimmed label is not empty, that record gets the trimmed
  label, with ciphertext, IV, address, id and creation time as before, the other records
  are unchanged, and in \<open>decryptedKeys\<close> the entry with that id gets the label.
\<close>

theorem doRenameKey_changes_only_the_label:
  "(case doRenameKey keyId labelInput w of
      (r, w') \<Rightarrow>
        list_all2 (\<lambda>x y. y = x \<or> (rec_id x = keyId \<and> y = x\<lparr>label := trim labelInput\<rparr>))
          (getEncryptedKeys w) (getEncryptedKeys w') \<and>
        list_all2 (\<lambda>x y. y = x \<or> (dk_id x = keyId \<and> y = x\<lparr>dk_label := trim labelInput\<rparr>))
          (decryptedKeys w) (decryptedKeys w') \<and>
        w' = w\<lparr>keys_store := keys_store w', decryptedKeys := decryptedKeys w'\<rparr> \<and>
        (\<forall>k. k \<noteq> keyId \<longrightarrow> keys_store w' k = keys_store w k))
   \<and> (store_get w keyId = Some rec \<and> trim labelInput \<noteq> [] \<longrightarrow>
        (case doRenameKey keyId labelInput w of
           (r, w') \<Rightarrow>
             store_get w' keyId = Some (rec\<lparr>label := trim labelInput\<rparr>) \<and>
             getEncryptedKeys w' =
               map (\<lambda>x. if rec_id x = keyId then x\<lparr>label := trim labelInput\<rparr> else x)
                 (getEncryptedKeys w) \<and>
             decryptedKeys w' = relabel_first keyId (trim labelInput) (decryptedKeys w)))"
proof -
  let ?l = "trim labelInput"
  have frame: "list_all2 (\<lambda>x y. y = x \<or> (rec_id x = keyId \<and> y = x\<lparr>label := ?l\<rparr>))
          (getEncryptedKeys w) (getEncryptedKeys (snd (doRenameKey keyId labelInput w))) \<and>
        list_all2 (\<lambda>x y. y = x \<or> (dk_id x = keyId \<and> y = x\<lparr>dk_label := ?l\<rparr>))
          (decryptedKeys w) (decryptedKeys (snd (doRenameKey keyId labelInput w))) \<and>
        snd (doRenameKey keyId labelInput w) =
          w\<lparr>keys_store := keys_store (snd (doRenameKey keyId labelInput w)),
            decryptedKeys := decryptedKeys (snd (doRenameKey keyId labelInput w))\<rparr> \<and>
        (\<forall>k. k \<noteq> keyId \<longrightarrow> keys_store (snd (doRenameKey keyId labelInput w)) k = keys_store w k)"
  proof (cases "store_get w keyId = None \<or> ?l = []")
    case True
    then show ?thesis
      by (simp add: doRenameKey_refused list_all2_refl)
  next
    case False
    then obtain r where g: "store_get w keyId = Some r" and n: "?l \<noteq> []" by auto
    have "getEncryptedKeys (snd (doRenameKey keyId labelInput w)) =
            map (\<lambda>x. if rec_id x = keyId then x\<lparr>label := ?l\<rparr> else x) (getEncryptedKeys w)"
      by (simp add: doRenameKey_found(1) [OF g n]
            getEncryptedKeys_relabel [OF updateKeyLabel_found(2) [OF g]])
    then show ?thesis
      by (simp add: doRenameKey_found(1) [OF g n] relabel_first_rel relabel_map_rel)
  qed
  have effect: "store_get (snd (doRenameKey keyId labelInput w)) keyId = Some (rec\<lparr>label := ?l\<rparr>) \<and>
             getEncryptedKeys (snd (doRenameKey keyId labelInput w)) =
               map (\<lambda>x. if rec_id x = keyId then x\<lparr>label := ?l\<rparr> else x) (getEncryptedKeys w) \<and>
             decryptedKeys (snd (doRenameKey keyId labelInput w)) =
               relabel_first keyId ?l (decryptedKeys w)"
    if h: "store_get w keyId = Some rec \<and> ?l \<noteq> []"
  proof -
    from h have g: "store_get w keyId = Some rec" and n: "?l \<noteq> []" by auto
    have "store_get (snd (doRenameKey keyId labelInput w)) keyId = Some (rec\<lparr>label := ?l\<rparr>)"
      using g by (auto simp: doRenameKey_found(1) [OF g n] store_get_def with_id_def without_id_def
          split: if_splits)
    moreover have "getEncryptedKeys (snd (doRenameKey keyId labelInput w)) =
            map (\<lambda>x. if rec_id x = keyId then x\<lparr>label := ?l\<rparr> else x) (getEncryptedKeys w)"
      by (simp add: doRenameKey_found(1) [OF g n]
            getEncryptedKeys_relabel [OF updateKeyLabel_found(2) [OF g]])
    ultimately show ?thesis
      by (simp add: doRenameKey_found(1) [OF g n])
  qed
  show ?thesis
    using frame effect by (simp add: case_prod_unfold)
qed

theorem doRenameKey_changes_only_the_label_witness:
  "store_get two_keys_unlocked 1 = Some (with_id 1 (record_main vault_key)) \<and>
   trim '' Hot '' \<noteq> [] \<and>
   (case doRenameKey 1 '' Hot '' two_keys_unlocked of
      (r, w') \<Rightarrow>
        map label (getEncryptedKeys w') = [''Hot'', ''Key 2''] \<and>
        map encrypted (getEncryptedKeys w') = map encrypted (getEncryptedKeys two_keys_unlocked) \<and>
        map dk_label (decryptedKeys w') = [''Hot'', ''Key 2''] \<and>
        map dk_key (decryptedKeys w') = [key_11, ''0x22''])"
proof -
  have t: "trim '' Hot '' = ''Hot''"
    by (simp add: trim_def is_space_def)
  show ?thesis
    using doRenameKey_changes_only_the_label
            [of 1 "'' Hot ''" two_keys_unlocked "with_id 1 (record_main vault_key)"]
    by (simp add: t two_keys_unlocked_store with_id_def record_main_def record_second_def
          entry_main_def entry_second_def split: prod.splits)
qed

subsection \<open>Locking\<close>

text \<open>
  C4. \<open>lockWallet\<close> lets go of exactly the entry objects that \<open>decryptedKeys\<close> held, each
  with its plaintext replaced by the empty string and the rest of it as before: the
  plaintext of every entry is overwritten before the list is discarded, and no object let
  go by the call holds a key. Afterwards the list is empty, no AES key is held,
  \<open>activeKeyIndex\<close> is 0 and the state is Locked, while the two stores, \<open>storedKeyCount\<close> and
  \<open>credMethod\<close> are as before. Locking again changes nothing, nor does locking the state
  that the page starts in when a credential exists, nor locking any Locked state without
  key, entries and cached balances.
\<close>

theorem lockWallet_wipes_and_locks:
  "released (lockWallet w) = released w @ map (\<lambda>d. d\<lparr>dk_key := []\<rparr>) (decryptedKeys w)
   \<and> (\<forall>d \<in> set (decryptedKeys w). d\<lparr>dk_key := []\<rparr> \<in> set (released (lockWallet w)))
   \<and> (\<forall>d \<in> set (drop (length (released w)) (released (lockWallet w))). dk_key d = [])
   \<and> decryptedKeys (lockWallet w) = [] \<and> aesKey (lockWallet w) = None
   \<and> activeKeyIndex (lockWallet w) = 0 \<and> walletState (lockWallet w) = Locked
   \<and> credentials_store (lockWallet w) = credentials_store w
   \<and> keys_store (lockWallet w) = keys_store w
   \<and> keys_generated (lockWallet w) = keys_generated w
   \<and> storedKeyCount (lockWallet w) = storedKeyCount w
   \<and> credMethod (lockWallet w) = credMethod w
   \<and> lockWallet (lockWallet w) = lockWallet w
   \<and> (credentials_store w \<noteq> None \<longrightarrow> lockWallet (init (page_load w)) = init (page_load w))
   \<and> (walletState w = Locked \<and> decryptedKeys w = [] \<and> aesKey w = None \<and> activeKeyIndex w = 0 \<and>
        expandedAccounts w = [] \<and> accountBalances w = [] \<longrightarrow> lockWallet w = w)"
proof (intro conjI impI)
  show r: "released (lockWallet w) = released w @ map (\<lambda>d. d\<lparr>dk_key := []\<rparr>) (decryptedKeys w)"
    by (simp add: lockWallet_def wipe_keys_map)
  show "\<forall>d \<in> set (decryptedKeys w). d\<lparr>dk_key := []\<rparr> \<in> set (released (lockWallet w))"
    unfolding r by simp
  show "\<forall>d \<in> set (drop (length (released w)) (released (lockWallet w))). dk_key d = []"
    unfolding r by auto
  show "lockWallet (lockWallet w) = lockWallet w"
    by (simp add: lockWallet_def wipe_keys.simps [of 0 "[]"])
  show "lockWallet (init (page_load w)) = init (page_load w)" if "credentials_store w \<noteq> None"
    using that
    by (auto simp: lockWallet_def wipe_keys.simps [of 0 "[]"] init_def page_load_def
        getCredential_def)
  show "lockWallet w = w"
    if "walletState w = Locked \<and> decryptedKeys w = [] \<and> aesKey w = None \<and> activeKeyIndex w = 0 \<and>
        expandedAccounts w = [] \<and> accountBalances w = []"
    using that by (simp add: lockWallet_def wipe_keys.simps [of 0 "[]"])
qed (simp_all add: lockWallet_def)

theorem lockWallet_wipes_and_locks_witness:
  "walletState two_keys_unlocked = Unlocked \<and>
   decryptedKeys two_keys_unlocked = [entry_main, entry_second] \<and>
   map dk_key (decryptedKeys two_keys_unlocked) = [key_11, ''0x22''] \<and>
   released two_keys_unlocked = [] \<and>
   released (lockWallet two_keys_unlocked) =
     [entry_main\<lparr>dk_key := []\<rparr>, entry_second\<lparr>dk_key := []\<rparr>] \<and>
   decryptedKeys (lockWallet two_keys_unlocked) = [] \<and>
   aesKey (lockWallet two_keys_unlocked) = None \<and>
   walletState (lockWallet two_keys_unlocked) = Locked \<and>
   walletState password_vault = Locked \<and> decryptedKeys password_vault = [] \<and>
   aesKey password_vault = None \<and> activeKeyIndex password_vault = 0 \<and>
   expandedAccounts password_vault = [] \<and> accountBalances password_vault = [] \<and>
   lockWallet password_vault = password_vault \<and>
   credentials_store password_vault \<noteq> None \<and>
   lockWallet (init (page_load password_vault)) = init (page_load password_vault)"
proof -
  note u = lockWallet_wipes_and_locks [of two_keys_unlocked]
  note l = lockWallet_wipes_and_locks [of password_vault]
  have 0: "released two_keys_unlocked = []"
    by (simp add: two_keys_unlocked_def unlocked_vault_def run_defs)
  from u have "released (lockWallet two_keys_unlocked) =
                 released two_keys_unlocked @
                   map (\<lambda>d. d\<lparr>dk_key := []\<rparr>) (decryptedKeys two_keys_unlocked)"
    by blast
  then have 1: "released (lockWallet two_keys_unlocked) =
                  [entry_main\<lparr>dk_key := []\<rparr>, entry_second\<lparr>dk_key := []\<rparr>]"
    by (simp add: 0 two_keys_unlocked_store)
  have 2: "decryptedKeys (lockWallet two_keys_unlocked) = [] \<and>
           aesKey (lockWallet two_keys_unlocked) = None \<and>
           walletState (lockWallet two_keys_unlocked) = Locked"
    using u by blast
  have 3: "lockWallet password_vault = password_vault"
    using l password_vault_facts by blast
  have 4: "lockWallet (init (page_load password_vault)) = init (page_load password_vault)"
    using l password_vault_facts(9) by blast
  show ?thesis
    using 0 1 2 3 4
    by (simp add: password_vault_facts two_keys_unlocked_store entry_main_def entry_second_def)
qed

subsection \<open>Switching the active key\<close>

text \<open>
  C3, as amended. \<open>switchKey\<close> assigns the index to \<open>activeKeyIndex\<close> and changes nothing
  else, for every index; when the index is within the bounds of \<open>decryptedKeys\<close> it ends
  without an exception. The function has no range check.
\<close>

theorem switchKey_sets_the_index:
  "snd (switchKey i w) = w\<lparr>activeKeyIndex := i\<rparr>
   \<and> (0 \<le> i \<and> i < int (length (decryptedKeys w)) \<longrightarrow>
        switchKey i w = (Inr (), w\<lparr>activeKeyIndex := i\<rparr>))"
  by (auto simp: switchKey_def Let_def renderWalletBar_def at_index_def split: option.splits)


theorem switchKey_sets_the_index_witness:
  "(0::int) \<le> 0 \<and> 0 < int (length (decryptedKeys two_keys_unlocked)) \<and>
   switchKey 0 two_keys_unlocked = (Inr (), two_keys_unlocked\<lparr>activeKeyIndex := 0\<rparr>)"
  using switchKey_sets_the_index [of 0 two_keys_unlocked]
  by (simp add: two_keys_unlocked_store)

text \<open>
  C3 as stated fails. With two entries, \<open>switchKey 5\<close> stores the index 5; the exception
  is the TypeError of \<^verbatim>\<open>renderWalletBar\<close>, thrown after the assignment. With no entry,
  \<open>switchKey 0\<close> stores the index and ends without any exception, though no index is
  within the bounds of an empty list.
\<close>

theorem switchKey_out_of_bounds_counterexample:
  "length (decryptedKeys two_keys_unlocked) = 2 \<and>
   switchKey 5 two_keys_unlocked =
     (Inl (Uncaught (Exn ''TypeError'' ''Cannot read properties of undefined'')),
      two_keys_unlocked\<lparr>activeKeyIndex := 5\<rparr>) \<and>
   length (decryptedKeys unlocked_vault) = 0 \<and>
   switchKey 0 unlocked_vault = (Inr (), unlocked_vault\<lparr>activeKeyIndex := 0\<rparr>)"
  by (simp add: switchKey_def renderWalletBar_def at_index_def two_keys_unlocked_store
        unlocked_vault_facts)

subsection \<open>Unlock attempts that fail\<close>

text \<open>
  C1, evaluated where the code departs from it. The store holds a record that decrypts
  under the key of the password and, after it, one that does not. \<open>unlockWithPassword\<close>
  with the right password reports the decryption error, holds no key and stays Locked,
  but \<open>decryptedKeys\<close>, empty before, now holds the entry of the first record with its
  plaintext: the \<^verbatim>\<open>catch\<close> resets \<^verbatim>\<open>aesKey\<close> only.
\<close>

theorem unlockWithPassword_partial_population:
  "unlockWithPassword toy ''correcthorse1'' tampered_password_vault =
     (Inl (DecryptionError ''Wrong password or decryption failed.''),
      tampered_password_vault\<lparr>decryptedKeys := [entry_main]\<rparr>)
   \<and> walletState tampered_password_vault = Locked
   \<and> decryptedKeys tampered_password_vault = []
   \<and> dk_key entry_main = key_11"
proof -
  have "decryptAllKeys toy (tampered_password_vault\<lparr>aesKey := Some vault_key\<rparr>) =
          (Inl (Exn ''OperationError'' []),
           tampered_password_vault\<lparr>aesKey := Some vault_key, decryptedKeys := [entry_main]\<rparr>)"
    using toy_decrypt_main [of vault_key] toy_decrypt_empty [of vault_key]
    by (simp add: decryptAllKeys_def tampered_password_vault_def getEncryptedKeys_def
          numeral_2_eq_2 with_id_def record_main_def record_second_def entry_main_def
          password_vault_facts)
  then show ?thesis
    by (simp add: unlockWithPassword_def getCredential_def tampered_password_vault_def
          password_vault_facts vault_key_def entry_main_def)
qed

text \<open>
  C2, evaluated where the code departs from it. On the same store with a PRF credential,
  \<open>unlockWallet\<close> ends in its \<^verbatim>\<open>catch\<close>, which resets nothing: the state is still Locked
  while the derived AES key is held and \<open>decryptedKeys\<close> holds the plaintext of the first
  record.
\<close>

theorem unlockWallet_keeps_key_and_entries:
  "unlockWallet toy (Inr (Some [7, 7])) tampered_prf_vault =
     (Inl (Logged (Exn ''OperationError'' [])),
      tampered_prf_vault\<lparr>rng_pos := 32, aesKey := Some prf_key, decryptedKeys := [entry_main]\<rparr>)
   \<and> walletState tampered_prf_vault = Locked
   \<and> aesKey tampered_prf_vault = None
   \<and> decryptedKeys tampered_prf_vault = []
   \<and> dk_key entry_main = key_11"
proof -
  have "decryptAllKeys toy (tampered_prf_vault\<lparr>rng_pos := 32, aesKey := Some prf_key\<rparr>) =
          (Inl (Exn ''OperationError'' []),
           tampered_prf_vault\<lparr>rng_pos := 32, aesKey := Some prf_key, decryptedKeys := [entry_main]\<rparr>)"
    using toy_decrypt_main [of prf_key] toy_decrypt_empty [of prf_key]
    by (simp add: decryptAllKeys_def tampered_prf_vault_def getEncryptedKeys_def
          numeral_2_eq_2 with_id_def record_main_def record_second_def entry_main_def
          prf_vault_facts)
  then show ?thesis
    by (simp add: unlockWallet_def getCredential_def getRandomValues_def unlock_caught_def
          renderWalletBar_def tampered_prf_vault_def prf_vault_facts prf_key_def entry_main_def)
qed

end
